theory Spec2Isabelle
  imports Main "HOL-Library.Word" "HOL-Library.Monad_Syntax"
begin

section \<open>Data model\<close>

text \<open>
  The generator \<^verbatim>\<open>generate_complex_template.py\<close> is a module-level script that
  builds one document through the python-docx API and saves it. python-docx is an
  external library; its objects are modelled by what the script can write to them and
  read back from them, as the library documents it. Saving the file and the three
  \<^verbatim>\<open>print\<close> calls (lines 176-181) are input/output and are not modelled. The
  embedding keeps the API's data as follows:

  \<^item> a Python \<^verbatim>\<open>str\<close> is a sequence of Unicode code points (\<^verbatim>\<open>enumerate\<close> and
    \<^verbatim>\<open>len\<close> count code points), so a string is a list of code points, each literal
    written by its code points;
  \<^item> \<^verbatim>\<open>RGBColor(r, g, b)\<close> is three 8-bit channels;
  \<^item> \<^verbatim>\<open>Pt(n)\<close> is a length given in points;
  \<^item> every font attribute of a run (\<^verbatim>\<open>font.color.rgb\<close>, \<^verbatim>\<open>font.bold\<close>,
    \<^verbatim>\<open>font.italic\<close>, \<^verbatim>\<open>font.underline\<close>, \<^verbatim>\<open>font.size\<close>) reads \<^verbatim>\<open>None\<close>
    until it is assigned, which is how the library reports an inherited value;
  \<^item> a heading is a paragraph carrying the style \<^verbatim>\<open>Title\<close> or \<^verbatim>\<open>Heading n\<close>;
    a paragraph made by \<^verbatim>\<open>add_paragraph()\<close> carries no style of its own.
\<close>

type_synonym ustr = "nat list"

datatype rgb = RGBColor "8 word" "8 word" "8 word"

datatype Length = Pt int

datatype WD_ALIGN_PARAGRAPH = LEFT | CENTER | RIGHT | JUSTIFY

datatype style = Title | Heading int

record Run =
  rtext :: ustr
  font_color :: "rgb option"
  font_bold :: "bool option"
  font_italic :: "bool option"
  font_underline :: "bool option"
  font_size :: "Length option"

record Paragraph =
  style :: "style option"
  alignment :: "WD_ALIGN_PARAGRAPH option"
  runs :: "Run list"

text \<open>
  The document is the ordered list of its paragraphs. The script holds paragraphs and
  runs by reference and mutates them after they were appended; a reference is the
  position of the object in the document (a paragraph index, and a paragraph index
  with a run index).
\<close>

type_synonym document = "Paragraph list"
type_synonym para_ref = nat
type_synonym run_ref = "nat \<times> nat"

section \<open>The python-docx operations the script calls\<close>

text \<open>
  Every operation takes the document and returns the new one (with the reference it
  creates, if any). \<open>None\<close> stands for a raised exception: \<^verbatim>\<open>ValueError\<close> of
  \<^verbatim>\<open>add_heading\<close> for a level outside 0..9, \<^verbatim>\<open>IndexError\<close> of \<^verbatim>\<open>runs[i]\<close>, and
  the use of a reference that names no object.
\<close>

definition Document :: document where
  "Document = []"

definition new_run :: "ustr \<Rightarrow> Run" where
  "new_run txt = \<lparr>rtext = txt, font_color = None, font_bold = None, font_italic = None,
                  font_underline = None, font_size = None\<rparr>"

definition add_paragraph :: "ustr \<Rightarrow> style option \<Rightarrow> document \<Rightarrow> (para_ref \<times> document) option" where
  "add_paragraph txt sty d =
     Some (length d,
           d @ [\<lparr>style = sty, alignment = None,
                 runs = (if txt \<noteq> [] then [new_run txt] else [])\<rparr>])"

definition add_heading :: "ustr \<Rightarrow> int \<Rightarrow> document \<Rightarrow> (para_ref \<times> document) option" where
  "add_heading txt level d =
     (if \<not> (0 \<le> level \<and> level \<le> 9) then None
      else add_paragraph txt (Some (if level = 0 then Title else Heading level)) d)"

definition set_alignment :: "para_ref \<Rightarrow> WD_ALIGN_PARAGRAPH \<Rightarrow> document \<Rightarrow> document option" where
  "set_alignment p a d =
     (if p < length d then Some (d[p := (d ! p)\<lparr>alignment := Some a\<rparr>]) else None)"

definition runs_at :: "para_ref \<Rightarrow> nat \<Rightarrow> document \<Rightarrow> run_ref option" where
  "runs_at p i d = (if p < length d \<and> i < length (runs (d ! p)) then Some (p, i) else None)"

definition add_run :: "para_ref \<Rightarrow> ustr \<Rightarrow> document \<Rightarrow> (run_ref \<times> document) option" where
  "add_run p txt d =
     (if p < length d
      then Some ((p, length (runs (d ! p))),
                 d[p := (d ! p)\<lparr>runs := runs (d ! p) @ [new_run txt]\<rparr>])
      else None)"

definition update_run :: "run_ref \<Rightarrow> (Run \<Rightarrow> Run) \<Rightarrow> document \<Rightarrow> document option" where
  "update_run r f d =
     (case r of (p, i) \<Rightarrow>
        if p < length d \<and> i < length (runs (d ! p))
        then Some (d[p := (d ! p)\<lparr>runs := (runs (d ! p))[i := f (runs (d ! p) ! i)]\<rparr>])
        else None)"

definition set_color :: "run_ref \<Rightarrow> rgb \<Rightarrow> document \<Rightarrow> document option" where
  "set_color r c = update_run r (\<lambda>x. x\<lparr>font_color := Some c\<rparr>)"

definition set_bold :: "run_ref \<Rightarrow> bool \<Rightarrow> document \<Rightarrow> document option" where
  "set_bold r b = update_run r (\<lambda>x. x\<lparr>font_bold := Some b\<rparr>)"

definition set_italic :: "run_ref \<Rightarrow> bool \<Rightarrow> document \<Rightarrow> document option" where
  "set_italic r b = update_run r (\<lambda>x. x\<lparr>font_italic := Some b\<rparr>)"

definition set_underline :: "run_ref \<Rightarrow> bool \<Rightarrow> document \<Rightarrow> document option" where
  "set_underline r b = update_run r (\<lambda>x. x\<lparr>font_underline := Some b\<rparr>)"

definition set_size :: "run_ref \<Rightarrow> Length \<Rightarrow> document \<Rightarrow> document option" where
  "set_size r s = update_run r (\<lambda>x. x\<lparr>font_size := Some s\<rparr>)"

section \<open>The script, section by section\<close>

text \<open>Lines 14-18: the title, a level-0 heading, centred, its one run dark grey.\<close>

definition mk_title :: "document \<Rightarrow> document option" where
  "mk_title doc = do {
     (title, doc) \<leftarrow> add_heading [0x590D, 0x6742, 0x683C, 0x5F0F, 0x6D4B, 0x8BD5, 0x6587, 0x6863] 0 doc;
     doc \<leftarrow> set_alignment title CENTER doc;
     title_run \<leftarrow> runs_at title 0 doc;
     set_color title_run (RGBColor 0x1a 0x1a 0x1a) doc
   }"

text \<open>Lines 20-24: the subtitle, a level-1 heading, centred, its one run red.\<close>

definition mk_subtitle :: "document \<Rightarrow> document option" where
  "mk_subtitle doc = do {
     (subtitle, doc) \<leftarrow> add_heading [0x683C, 0x5F0F, 0x4FDD, 0x7559, 0x6D4B, 0x8BD5] 1 doc;
     doc \<leftarrow> set_alignment subtitle CENTER doc;
     subtitle_run \<leftarrow> runs_at subtitle 0 doc;
     set_color subtitle_run (RGBColor 0xFF 0x00 0x00) doc
   }"

text \<open>Lines 26-54: a sentence of seven runs, black text with blue, green and red words.\<close>

definition mk_para1 :: "document \<Rightarrow> document option" where
  "mk_para1 doc = do {
     (para1, doc) \<leftarrow> add_paragraph [] None doc;
     doc \<leftarrow> set_alignment para1 LEFT doc;
     (run1, doc) \<leftarrow> add_run para1 [0x8FD9, 0x662F] doc;
     doc \<leftarrow> set_color run1 (RGBColor 0x00 0x00 0x00) doc;
     (run2, doc) \<leftarrow> add_run para1 [0x84DD, 0x8272] doc;
     doc \<leftarrow> set_color run2 (RGBColor 0x00 0x00 0xFF) doc;
     doc \<leftarrow> set_bold run2 True doc;
     (run3, doc) \<leftarrow> add_run para1 [0x7684, 0x6587, 0x5B57, 0xFF0C] doc;
     doc \<leftarrow> set_color run3 (RGBColor 0x00 0x00 0x00) doc;
     (run4, doc) \<leftarrow> add_run para1 [0x7EFF, 0x8272] doc;
     doc \<leftarrow> set_color run4 (RGBColor 0x00 0xFF 0x00) doc;
     doc \<leftarrow> set_italic run4 True doc;
     (run5, doc) \<leftarrow> add_run para1 [0x7684, 0x6587, 0x5B57, 0xFF0C] doc;
     doc \<leftarrow> set_color run5 (RGBColor 0x00 0x00 0x00) doc;
     (run6, doc) \<leftarrow> add_run para1 [0x7EA2, 0x8272] doc;
     doc \<leftarrow> set_color run6 (RGBColor 0xFF 0x00 0x00) doc;
     doc \<leftarrow> set_bold run6 True doc;
     doc \<leftarrow> set_italic run6 True doc;
     (run7, doc) \<leftarrow> add_run para1 [0x7684, 0x6587, 0x5B57, 0x3002] doc;
     set_color run7 (RGBColor 0x00 0x00 0x00) doc
   }"

text \<open>
  Lines 56-74: one run per character of the string \<^verbatim>\<open>text\<close>; every character but the
  last takes \<^verbatim>\<open>colors[i % len(colors)]\<close>. \<open>rainbow_text\<close> is the script's variable
  \<^verbatim>\<open>text\<close>, \<open>getitem\<close> is list indexing (\<open>None\<close> for \<^verbatim>\<open>IndexError\<close>), and
  \<^verbatim>\<open>len(text) - 1\<close> is computed on integers as Python does.
\<close>

definition rainbow_text :: ustr where
  "rainbow_text = [0x5F69, 0x8679, 0x6587, 0x5B57, 0xFF1A]"

definition colors :: "rgb list" where
  "colors = [
     RGBColor 0xFF 0x00 0x00,
     RGBColor 0xFF 0x7F 0x00,
     RGBColor 0xFF 0xFF 0x00,
     RGBColor 0x00 0xFF 0x00,
     RGBColor 0x00 0x00 0xFF,
     RGBColor 0x4B 0x00 0x82,
     RGBColor 0x94 0x00 0xD3
   ]"

definition getitem :: "'a list \<Rightarrow> nat \<Rightarrow> 'a option" where
  "getitem xs i = (if i < length xs then Some (xs ! i) else None)"

fun para2_loop :: "para_ref \<Rightarrow> ustr \<Rightarrow> (nat \<times> nat) list \<Rightarrow> document \<Rightarrow> document option" where
  "para2_loop para2 txt [] doc = Some doc"
| "para2_loop para2 txt ((i, char) # rest) doc = do {
     (run, doc) \<leftarrow> add_run para2 [char] doc;
     doc \<leftarrow> (if int i < int (length txt) - 1
             then do {
               c \<leftarrow> getitem colors (i mod length colors);
               set_color run c doc
             }
             else Some doc);
     para2_loop para2 txt rest doc
   }"

definition mk_para2 :: "document \<Rightarrow> document option" where
  "mk_para2 doc = do {
     (para2, doc) \<leftarrow> add_paragraph [] None doc;
     doc \<leftarrow> set_alignment para2 LEFT doc;
     para2_loop para2 rainbow_text (List.enumerate 0 rainbow_text) doc
   }"

text \<open>Lines 76-90: two words and their punctuation marks, four runs of four colours.\<close>

definition mk_para3 :: "document \<Rightarrow> document option" where
  "mk_para3 doc = do {
     (para3, doc) \<leftarrow> add_paragraph [] None doc;
     doc \<leftarrow> set_alignment para3 LEFT doc;
     (run_word1, doc) \<leftarrow> add_run para3 [0x5355, 0x8BCD] doc;
     doc \<leftarrow> set_color run_word1 (RGBColor 0x00 0x00 0xFF) doc;
     (run_punct1, doc) \<leftarrow> add_run para3 [0xFF0C] doc;
     doc \<leftarrow> set_color run_punct1 (RGBColor 0xFF 0x00 0x00) doc;
     (run_word2, doc) \<leftarrow> add_run para3 [0x6807, 0x70B9] doc;
     doc \<leftarrow> set_color run_word2 (RGBColor 0x00 0xFF 0x00) doc;
     (run_punct2, doc) \<leftarrow> add_run para3 [0x3002] doc;
     set_color run_punct2 (RGBColor 0xFF 0x00 0xFF) doc
   }"

text \<open>Lines 92-104: an underlined red run, a run left as created, an underlined blue run.\<close>

definition mk_para4 :: "document \<Rightarrow> document option" where
  "mk_para4 doc = do {
     (para4, doc) \<leftarrow> add_paragraph [] None doc;
     doc \<leftarrow> set_alignment para4 LEFT doc;
     (run_under1, doc) \<leftarrow> add_run para4 [0x4E0B, 0x5212, 0x7EBF] doc;
     doc \<leftarrow> set_color run_under1 (RGBColor 0xFF 0x00 0x00) doc;
     doc \<leftarrow> set_underline run_under1 True doc;
     (run_normal, doc) \<leftarrow> add_run para4 [0x0020, 0x666E, 0x901A, 0x6587, 0x5B57, 0x0020] doc;
     (run_under2, doc) \<leftarrow> add_run para4 [0x4E0B, 0x5212, 0x7EBF] doc;
     doc \<leftarrow> set_color run_under2 (RGBColor 0x00 0x00 0xFF) doc;
     set_underline run_under2 True doc
   }"

text \<open>Lines 106-118: a 10pt red run, a run left as created, a 16pt blue run.\<close>

definition mk_para5 :: "document \<Rightarrow> document option" where
  "mk_para5 doc = do {
     (para5, doc) \<leftarrow> add_paragraph [] None doc;
     doc \<leftarrow> set_alignment para5 LEFT doc;
     (run_size1, doc) \<leftarrow> add_run para5 [0x5C0F, 0x53F7] doc;
     doc \<leftarrow> set_size run_size1 (Pt 10) doc;
     doc \<leftarrow> set_color run_size1 (RGBColor 0xFF 0x00 0x00) doc;
     (run_normal2, doc) \<leftarrow> add_run para5 [0x0020, 0x6B63, 0x5E38, 0x0020] doc;
     (run_size2, doc) \<leftarrow> add_run para5 [0x5927, 0x53F7] doc;
     doc \<leftarrow> set_size run_size2 (Pt 16) doc;
     set_color run_size2 (RGBColor 0x00 0x00 0xFF) doc
   }"

text \<open>Lines 120-133: a centred paragraph: bold red, black, italic green.\<close>

definition mk_para6 :: "document \<Rightarrow> document option" where
  "mk_para6 doc = do {
     (para6, doc) \<leftarrow> add_paragraph [] None doc;
     doc \<leftarrow> set_alignment para6 CENTER doc;
     (run_center1, doc) \<leftarrow> add_run para6 [0x5C45, 0x4E2D] doc;
     doc \<leftarrow> set_color run_center1 (RGBColor 0xFF 0x00 0x00) doc;
     doc \<leftarrow> set_bold run_center1 True doc;
     (run_center2, doc) \<leftarrow> add_run para6 [0x0020, 0x6587, 0x5B57, 0x0020] doc;
     doc \<leftarrow> set_color run_center2 (RGBColor 0x00 0x00 0x00) doc;
     (run_center3, doc) \<leftarrow> add_run para6 [0x6D4B, 0x8BD5] doc;
     doc \<leftarrow> set_color run_center3 (RGBColor 0x00 0xFF 0x00) doc;
     set_italic run_center3 True doc
   }"

text \<open>
  Lines 135-154: one run per entry of \<^verbatim>\<open>complex_texts\<close>, each with its colour, bold
  and italic assigned from the entry.
\<close>

definition complex_texts :: "(ustr \<times> rgb \<times> bool \<times> bool) list" where
  "complex_texts = [
     ([0x8FD9, 0x662F], RGBColor 0x00 0x00 0x00, False, False),
     ([0x4E00, 0x4E2A], RGBColor 0xFF 0x00 0x00, True, False),
     ([0x590D, 0x6742], RGBColor 0x00 0xFF 0x00, False, True),
     ([0x7684], RGBColor 0x00 0x00 0x00, False, False),
     ([0x683C, 0x5F0F], RGBColor 0x00 0x00 0xFF, True, True),
     ([0x6D4B, 0x8BD5], RGBColor 0xFF 0x00 0xFF, False, False),
     ([0x6BB5, 0x843D], RGBColor 0xFF 0x7F 0x00, True, True),
     ([0x3002], RGBColor 0x00 0x00 0x00, False, False)
   ]"

fun para7_loop :: "para_ref \<Rightarrow> (ustr \<times> rgb \<times> bool \<times> bool) list \<Rightarrow> document \<Rightarrow> document option" where
  "para7_loop para7 [] doc = Some doc"
| "para7_loop para7 ((txt, color, bold, italic) # rest) doc = do {
     (run, doc) \<leftarrow> add_run para7 txt doc;
     doc \<leftarrow> set_color run color doc;
     doc \<leftarrow> set_bold run bold doc;
     doc \<leftarrow> set_italic run italic doc;
     para7_loop para7 rest doc
   }"

definition mk_para7 :: "document \<Rightarrow> document option" where
  "mk_para7 doc = do {
     (para7, doc) \<leftarrow> add_paragraph [] None doc;
     doc \<leftarrow> set_alignment para7 LEFT doc;
     para7_loop para7 complex_texts doc
   }"

text \<open>Lines 156-174: one coloured run per entry of \<^verbatim>\<open>special_chars\<close>.\<close>

definition special_chars :: "(ustr \<times> rgb) list" where
  "special_chars = [
     ([0x7279, 0x6B8A], RGBColor 0xFF 0x00 0x00),
     ([0x5B57, 0x7B26], RGBColor 0x00 0xFF 0x00),
     ([0xFF1A], RGBColor 0x00 0x00 0xFF),
     ([0x0040], RGBColor 0xFF 0x00 0xFF),
     ([0x0023], RGBColor 0xFF 0x7F 0x00),
     ([0x0024], RGBColor 0x00 0xFF 0xFF),
     ([0x0025], RGBColor 0xFF 0xFF 0x00),
     ([0x0026], RGBColor 0x00 0x00 0xFF),
     ([0x002A], RGBColor 0xFF 0x00 0x00)
   ]"

fun para8_loop :: "para_ref \<Rightarrow> (ustr \<times> rgb) list \<Rightarrow> document \<Rightarrow> document option" where
  "para8_loop para8 [] doc = Some doc"
| "para8_loop para8 ((txt, color) # rest) doc = do {
     (run, doc) \<leftarrow> add_run para8 txt doc;
     doc \<leftarrow> set_color run color doc;
     para8_loop para8 rest doc
   }"

definition mk_para8 :: "document \<Rightarrow> document option" where
  "mk_para8 doc = do {
     (para8, doc) \<leftarrow> add_paragraph [] None doc;
     doc \<leftarrow> set_alignment para8 LEFT doc;
     para8_loop para8 special_chars doc
   }"

text \<open>
  The whole script, lines 12-174, in the order of its statements: \<open>generate\<close> runs the
  ten sections on the document it is given, and \<open>doc\<close> is the script's \<^verbatim>\<open>doc\<close> as it
  stands when it is saved, built from a fresh \<^verbatim>\<open>Document()\<close>.
\<close>

definition generate :: "document \<Rightarrow> document option" where
  "generate doc = do {
     doc \<leftarrow> mk_title doc;
     doc \<leftarrow> mk_subtitle doc;
     doc \<leftarrow> mk_para1 doc;
     doc \<leftarrow> mk_para2 doc;
     doc \<leftarrow> mk_para3 doc;
     doc \<leftarrow> mk_para4 doc;
     doc \<leftarrow> mk_para5 doc;
     doc \<leftarrow> mk_para6 doc;
     doc \<leftarrow> mk_para7 doc;
     mk_para8 doc
   }"

definition doc :: "document option" where
  "doc = generate Document"

section \<open>Reading the finished document back\<close>

text \<open>
  \<open>doc_paragraph p\<close> is \<^verbatim>\<open>doc.paragraphs[p]\<close> and \<open>doc_run p i\<close> is
  \<^verbatim>\<open>doc.paragraphs[p].runs[i]\<close>, both \<open>None\<close> where the index names nothing (or the
  script failed). \<open>run_positions P d\<close> lists, in document order, the positions
  (paragraph index, run index) of the runs of \<open>d\<close> that satisfy \<open>P\<close>.
\<close>

definition doc_paragraph :: "nat \<Rightarrow> Paragraph option" where
  "doc_paragraph p = do { d \<leftarrow> doc; getitem d p }"

definition doc_run :: "nat \<Rightarrow> nat \<Rightarrow> Run option" where
  "doc_run p i = do { b \<leftarrow> doc_paragraph p; getitem (runs b) i }"

definition run_positions :: "(Run \<Rightarrow> bool) \<Rightarrow> document \<Rightarrow> (nat \<times> nat) list" where
  "run_positions P d =
     concat (map (\<lambda>(p, b). map (\<lambda>(i, r). (p, i))
                                (filter (\<lambda>(i, r). P r) (List.enumerate 0 (runs b))))
                 (List.enumerate 0 d))"

section \<open>What each operation does to the paragraph appended last\<close>

lemma set_alignment_last:
  "set_alignment (length d) a (d @ [p]) = Some (d @ [p\<lparr>alignment := Some a\<rparr>])"
  by (simp add: set_alignment_def)

lemma runs_at_last:
  "runs_at (length d) i (d @ [p]) = (if i < length (runs p) then Some (length d, i) else None)"
  by (simp add: runs_at_def)

lemma add_run_last:
  "add_run (length d) txt (d @ [p]) =
     Some ((length d, length (runs p)), d @ [p\<lparr>runs := runs p @ [new_run txt]\<rparr>])"
  by (simp add: add_run_def)

lemma update_run_last:
  "update_run (length d, i) f (d @ [p]) =
     (if i < length (runs p) then Some (d @ [p\<lparr>runs := (runs p)[i := f (runs p ! i)]\<rparr>]) else None)"
  by (simp add: update_run_def)

lemmas setters_last =
  set_color_def set_bold_def set_italic_def set_underline_def set_size_def update_run_last

lemma mk_title_appends:
  "mk_title d = Some (d @ [\<lparr>style = Some Title, alignment = Some CENTER,
     runs = [\<lparr>rtext = [0x590D, 0x6742, 0x683C, 0x5F0F, 0x6D4B, 0x8BD5, 0x6587, 0x6863],
              font_color = Some (RGBColor 0x1a 0x1a 0x1a), font_bold = None, font_italic = None,
              font_underline = None, font_size = None\<rparr>]\<rparr>])"
  by (simp add: mk_title_def add_heading_def add_paragraph_def new_run_def
      set_alignment_last runs_at_last setters_last)

lemma mk_subtitle_appends:
  "mk_subtitle d = Some (d @ [\<lparr>style = Some (Heading 1), alignment = Some CENTER,
     runs = [\<lparr>rtext = [0x683C, 0x5F0F, 0x4FDD, 0x7559, 0x6D4B, 0x8BD5],
              font_color = Some (RGBColor 0xFF 0x00 0x00), font_bold = None, font_italic = None,
              font_underline = None, font_size = None\<rparr>]\<rparr>])"
  by (simp add: mk_subtitle_def add_heading_def add_paragraph_def new_run_def
      set_alignment_last runs_at_last setters_last)

lemma mk_para1_appends:
  "mk_para1 d = Some (d @ [\<lparr>style = None, alignment = Some LEFT,
     runs = [\<lparr>rtext = [0x8FD9, 0x662F], font_color = Some (RGBColor 0 0 0),
              font_bold = None, font_italic = None, font_underline = None, font_size = None\<rparr>,
             \<lparr>rtext = [0x84DD, 0x8272], font_color = Some (RGBColor 0 0 0xFF),
              font_bold = Some True, font_italic = None, font_underline = None, font_size = None\<rparr>,
             \<lparr>rtext = [0x7684, 0x6587, 0x5B57, 0xFF0C], font_color = Some (RGBColor 0 0 0),
              font_bold = None, font_italic = None, font_underline = None, font_size = None\<rparr>,
             \<lparr>rtext = [0x7EFF, 0x8272], font_color = Some (RGBColor 0 0xFF 0),
              font_bold = None, font_italic = Some True, font_underline = None, font_size = None\<rparr>,
             \<lparr>rtext = [0x7684, 0x6587, 0x5B57, 0xFF0C], font_color = Some (RGBColor 0 0 0),
              font_bold = None, font_italic = None, font_underline = None, font_size = None\<rparr>,
             \<lparr>rtext = [0x7EA2, 0x8272], font_color = Some (RGBColor 0xFF 0 0),
              font_bold = Some True, font_italic = Some True, font_underline = None, font_size = None\<rparr>,
             \<lparr>rtext = [0x7684, 0x6587, 0x5B57, 0x3002], font_color = Some (RGBColor 0 0 0),
              font_bold = None, font_italic = None, font_underline = None, font_size = None\<rparr>]\<rparr>])"
  by (simp add: mk_para1_def add_paragraph_def new_run_def
      set_alignment_last add_run_last setters_last)

lemma para2_loop_last:
  "para2_loop (length d) txt ics (d @ [p]) =
     Some (d @ [p\<lparr>runs := runs p @
       map (\<lambda>(i, c). \<lparr>rtext = [c],
              font_color = (if int i < int (length txt) - 1
                            then Some (colors ! (i mod length colors)) else None),
              font_bold = None, font_italic = None, font_underline = None,
              font_size = None\<rparr>) ics\<rparr>])"
proof (induction ics arbitrary: p)
  case Nil
  show ?case by simp
next
  case (Cons ic ics)
  obtain i c where ic: "ic = (i, c)" by (cases ic)
  have len: "i mod length colors < length colors" by (simp add: colors_def)
  show ?case
    using Cons.IH len by (simp add: ic add_run_last setters_last new_run_def getitem_def)
qed

lemma para7_loop_last:
  "para7_loop (length d) xs (d @ [p]) =
     Some (d @ [p\<lparr>runs := runs p @
       map (\<lambda>(txt, color, bold, italic). \<lparr>rtext = txt, font_color = Some color,
              font_bold = Some bold, font_italic = Some italic, font_underline = None,
              font_size = None\<rparr>) xs\<rparr>])"
proof (induction xs arbitrary: p)
  case Nil
  show ?case by simp
next
  case (Cons x xs)
  obtain t color bold italic where x: "x = (t, color, bold, italic)" by (cases x)
  show ?case
    using Cons.IH by (simp add: x add_run_last setters_last new_run_def)
qed

lemma para8_loop_last:
  "para8_loop (length d) xs (d @ [p]) =
     Some (d @ [p\<lparr>runs := runs p @
       map (\<lambda>(txt, color). \<lparr>rtext = txt, font_color = Some color,
              font_bold = None, font_italic = None, font_underline = None,
              font_size = None\<rparr>) xs\<rparr>])"
proof (induction xs arbitrary: p)
  case Nil
  show ?case by simp
next
  case (Cons x xs)
  obtain t color where x: "x = (t, color)" by (cases x)
  show ?case
    using Cons.IH by (simp add: x add_run_last setters_last new_run_def)
qed

lemma para2_loop_texts:
  "map_option (\<lambda>d'. concat (map rtext (runs (last d'))))
       (para2_loop (length d) str (List.enumerate n str) (d @ [p])) =
     Some (concat (map rtext (runs p)) @ str)"
proof -
  have aux: "concat (map (\<lambda>x. rtext (case x of (i, c) \<Rightarrow> \<lparr>rtext = [c],
                  font_color = (if int i < int (length s) - 1
                                then Some (colors ! (i mod length colors)) else None),
                  font_bold = None, font_italic = None, font_underline = None,
                  font_size = None\<rparr>)) ics) = map snd ics" for s ics
    by (induction ics) auto
  show ?thesis
    by (simp add: para2_loop_last comp_def aux)
qed

lemma mk_para2_appends:
  "mk_para2 d = Some (d @ [\<lparr>style = None, alignment = Some LEFT,
     runs = map (\<lambda>(i, c). \<lparr>rtext = [c],
              font_color = (if int i < int (length rainbow_text) - 1
                            then Some (colors ! (i mod length colors)) else None),
              font_bold = None, font_italic = None, font_underline = None,
              font_size = None\<rparr>) (List.enumerate 0 rainbow_text)\<rparr>])"
  by (simp add: mk_para2_def add_paragraph_def set_alignment_last para2_loop_last)

lemma mk_para7_appends:
  "mk_para7 d = Some (d @ [\<lparr>style = None, alignment = Some LEFT,
     runs = map (\<lambda>(txt, color, bold, italic). \<lparr>rtext = txt, font_color = Some color,
              font_bold = Some bold, font_italic = Some italic, font_underline = None,
              font_size = None\<rparr>) complex_texts\<rparr>])"
  by (simp add: mk_para7_def add_paragraph_def set_alignment_last para7_loop_last)

lemma mk_para8_appends:
  "mk_para8 d = Some (d @ [\<lparr>style = None, alignment = Some LEFT,
     runs = map (\<lambda>(txt, color). \<lparr>rtext = txt, font_color = Some color,
              font_bold = None, font_italic = None, font_underline = None,
              font_size = None\<rparr>) special_chars\<rparr>])"
  by (simp add: mk_para8_def add_paragraph_def set_alignment_last para8_loop_last)

lemma mk_para3_appends:
  "mk_para3 d = Some (d @ [\<lparr>style = None, alignment = Some LEFT,
     runs = [\<lparr>rtext = [0x5355, 0x8BCD], font_color = Some (RGBColor 0 0 0xFF),
              font_bold = None, font_italic = None, font_underline = None, font_size = None\<rparr>,
             \<lparr>rtext = [0xFF0C], font_color = Some (RGBColor 0xFF 0 0),
              font_bold = None, font_italic = None, font_underline = None, font_size = None\<rparr>,
             \<lparr>rtext = [0x6807, 0x70B9], font_color = Some (RGBColor 0 0xFF 0),
              font_bold = None, font_italic = None, font_underline = None, font_size = None\<rparr>,
             \<lparr>rtext = [0x3002], font_color = Some (RGBColor 0xFF 0 0xFF),
              font_bold = None, font_italic = None, font_underline = None, font_size = None\<rparr>]\<rparr>])"
  by (simp add: mk_para3_def add_paragraph_def new_run_def
      set_alignment_last add_run_last setters_last)

lemma mk_para4_appends:
  "mk_para4 d = Some (d @ [\<lparr>style = None, alignment = Some LEFT,
     runs = [\<lparr>rtext = [0x4E0B, 0x5212, 0x7EBF], font_color = Some (RGBColor 0xFF 0 0),
              font_bold = None, font_italic = None, font_underline = Some True, font_size = None\<rparr>,
             \<lparr>rtext = [0x0020, 0x666E, 0x901A, 0x6587, 0x5B57, 0x0020], font_color = None,
              font_bold = None, font_italic = None, font_underline = None, font_size = None\<rparr>,
             \<lparr>rtext = [0x4E0B, 0x5212, 0x7EBF], font_color = Some (RGBColor 0 0 0xFF),
              font_bold = None, font_italic = None, font_underline = Some True, font_size = None\<rparr>]\<rparr>])"
  by (simp add: mk_para4_def add_paragraph_def new_run_def
      set_alignment_last add_run_last setters_last)

lemma mk_para5_appends:
  "mk_para5 d = Some (d @ [\<lparr>style = None, alignment = Some LEFT,
     runs = [\<lparr>rtext = [0x5C0F, 0x53F7], font_color = Some (RGBColor 0xFF 0 0),
              font_bold = None, font_italic = None, font_underline = None, font_size = Some (Pt 10)\<rparr>,
             \<lparr>rtext = [0x0020, 0x6B63, 0x5E38, 0x0020], font_color = None,
              font_bold = None, font_italic = None, font_underline = None, font_size = None\<rparr>,
             \<lparr>rtext = [0x5927, 0x53F7], font_color = Some (RGBColor 0 0 0xFF),
              font_bold = None, font_italic = None, font_underline = None, font_size = Some (Pt 16)\<rparr>]\<rparr>])"
  by (simp add: mk_para5_def add_paragraph_def new_run_def
      set_alignment_last add_run_last setters_last)

lemma mk_para6_appends:
  "mk_para6 d = Some (d @ [\<lparr>style = None, alignment = Some CENTER,
     runs = [\<lparr>rtext = [0x5C45, 0x4E2D], font_color = Some (RGBColor 0xFF 0 0),
              font_bold = Some True, font_italic = None, font_underline = None, font_size = None\<rparr>,
             \<lparr>rtext = [0x0020, 0x6587, 0x5B57, 0x0020], font_color = Some (RGBColor 0 0 0),
              font_bold = None, font_italic = None, font_underline = None, font_size = None\<rparr>,
             \<lparr>rtext = [0x6D4B, 0x8BD5], font_color = Some (RGBColor 0 0xFF 0),
              font_bold = None, font_italic = Some True, font_underline = None, font_size = None\<rparr>]\<rparr>])"
  by (simp add: mk_para6_def add_paragraph_def new_run_def
      set_alignment_last add_run_last setters_last)

section \<open>The whole script appends ten fixed blocks\<close>

lemma generate_appends:
  "generate d = Some (d @ [
     \<lparr>style = Some Title, alignment = Some CENTER,
      runs = [\<lparr>rtext = [0x590D, 0x6742, 0x683C, 0x5F0F, 0x6D4B, 0x8BD5, 0x6587, 0x6863],
               font_color = Some (RGBColor 0x1a 0x1a 0x1a), font_bold = None, font_italic = None,
               font_underline = None, font_size = None\<rparr>]\<rparr>,
     \<lparr>style = Some (Heading 1), alignment = Some CENTER,
      runs = [\<lparr>rtext = [0x683C, 0x5F0F, 0x4FDD, 0x7559, 0x6D4B, 0x8BD5],
               font_color = Some (RGBColor 0xFF 0x00 0x00), font_bold = None, font_italic = None,
               font_underline = None, font_size = None\<rparr>]\<rparr>,
     \<lparr>style = None, alignment = Some LEFT,
      runs = [\<lparr>rtext = [0x8FD9, 0x662F], font_color = Some (RGBColor 0 0 0),
               font_bold = None, font_italic = None, font_underline = None, font_size = None\<rparr>,
              \<lparr>rtext = [0x84DD, 0x8272], font_color = Some (RGBColor 0 0 0xFF),
               font_bold = Some True, font_italic = None, font_underline = None, font_size = None\<rparr>,
              \<lparr>rtext = [0x7684, 0x6587, 0x5B57, 0xFF0C], font_color = Some (RGBColor 0 0 0),
               font_bold = None, font_italic = None, font_underline = None, font_size = None\<rparr>,
              \<lparr>rtext = [0x7EFF, 0x8272], font_color = Some (RGBColor 0 0xFF 0),
               font_bold = None, font_italic = Some True, font_underline = None, font_size = None\<rparr>,
              \<lparr>rtext = [0x7684, 0x6587, 0x5B57, 0xFF0C], font_color = Some (RGBColor 0 0 0),
               font_bold = None, font_italic = None, font_underline = None, font_size = None\<rparr>,
              \<lparr>rtext = [0x7EA2, 0x8272], font_color = Some (RGBColor 0xFF 0 0),
               font_bold = Some True, font_italic = Some True, font_underline = None, font_size = None\<rparr>,
              \<lparr>rtext = [0x7684, 0x6587, 0x5B57, 0x3002], font_color = Some (RGBColor 0 0 0),
               font_bold = None, font_italic = None, font_underline = None, font_size = None\<rparr>]\<rparr>,
     \<lparr>style = None, alignment = Some LEFT,
      runs = map (\<lambda>(i, c). \<lparr>rtext = [c],
               font_color = (if int i < int (length rainbow_text) - 1
                             then Some (colors ! (i mod length colors)) else None),
               font_bold = None, font_italic = None, font_underline = None,
               font_size = None\<rparr>) (List.enumerate 0 rainbow_text)\<rparr>,
     \<lparr>style = None, alignment = Some LEFT,
      runs = [\<lparr>rtext = [0x5355, 0x8BCD], font_color = Some (RGBColor 0 0 0xFF),
               font_bold = None, font_italic = None, font_underline = None, font_size = None\<rparr>,
              \<lparr>rtext = [0xFF0C], font_color = Some (RGBColor 0xFF 0 0),
               font_bold = None, font_italic = None, font_underline = None, font_size = None\<rparr>,
              \<lparr>rtext = [0x6807, 0x70B9], font_color = Some (RGBColor 0 0xFF 0),
               font_bold = None, font_italic = None, font_underline = None, font_size = None\<rparr>,
              \<lparr>rtext = [0x3002], font_color = Some (RGBColor 0xFF 0 0xFF),
               font_bold = None, font_italic = None, font_underline = None, font_size = None\<rparr>]\<rparr>,
     \<lparr>style = None, alignment = Some LEFT,
      runs = [\<lparr>rtext = [0x4E0B, 0x5212, 0x7EBF], font_color = Some (RGBColor 0xFF 0 0),
               font_bold = None, font_italic = None, font_underline = Some True, font_size = None\<rparr>,
              \<lparr>rtext = [0x0020, 0x666E, 0x901A, 0x6587, 0x5B57, 0x0020], font_color = None,
               font_bold = None, font_italic = None, font_underline = None, font_size = None\<rparr>,
              \<lparr>rtext = [0x4E0B, 0x5212, 0x7EBF], font_color = Some (RGBColor 0 0 0xFF),
               font_bold = None, font_italic = None, font_underline = Some True, font_size = None\<rparr>]\<rparr>,
     \<lparr>style = None, alignment = Some LEFT,
      runs = [\<lparr>rtext = [0x5C0F, 0x53F7], font_color = Some (RGBColor 0xFF 0 0),
               font_bold = None, font_italic = None, font_underline = None, font_size = Some (Pt 10)\<rparr>,
              \<lparr>rtext = [0x0020, 0x6B63, 0x5E38, 0x0020], font_color = None,
               font_bold = None, font_italic = None, font_underline = None, font_size = None\<rparr>,
              \<lparr>rtext = [0x5927, 0x53F7], font_color = Some (RGBColor 0 0 0xFF),
               font_bold = None, font_italic = None, font_underline = None, font_size = Some (Pt 16)\<rparr>]\<rparr>,
     \<lparr>style = None, alignment = Some CENTER,
      runs = [\<lparr>rtext = [0x5C45, 0x4E2D], font_color = Some (RGBColor 0xFF 0 0),
               font_bold = Some True, font_italic = None, font_underline = None, font_size = None\<rparr>,
              \<lparr>rtext = [0x0020, 0x6587, 0x5B57, 0x0020], font_color = Some (RGBColor 0 0 0),
               font_bold = None, font_italic = None, font_underline = None, font_size = None\<rparr>,
              \<lparr>rtext = [0x6D4B, 0x8BD5], font_color = Some (RGBColor 0 0xFF 0),
               font_bold = None, font_italic = Some True, font_underline = None, font_size = None\<rparr>]\<rparr>,
     \<lparr>style = None, alignment = Some LEFT,
      runs = map (\<lambda>(txt, color, bold, italic). \<lparr>rtext = txt, font_color = Some color,
               font_bold = Some bold, font_italic = Some italic, font_underline = None,
               font_size = None\<rparr>) complex_texts\<rparr>,
     \<lparr>style = None, alignment = Some LEFT,
      runs = map (\<lambda>(txt, color). \<lparr>rtext = txt, font_color = Some color,
               font_bold = None, font_italic = None, font_underline = None,
               font_size = None\<rparr>) special_chars\<rparr>])"
  unfolding generate_def
  by (simp only: mk_title_appends mk_subtitle_appends mk_para1_appends mk_para2_appends
      mk_para3_appends mk_para4_appends mk_para5_appends mk_para6_appends mk_para7_appends
      mk_para8_appends bind.bind_lunit append_assoc append_Cons append_Nil)

text \<open>
  The script's \<^verbatim>\<open>doc\<close> when it is saved: the script runs to its end (no exception),
  and the document holds these ten blocks, every attribute as it reads back.
\<close>

lemma doc_value:
  "doc = Some [
     \<lparr>style = Some Title, alignment = Some CENTER,
      runs = [\<lparr>rtext = [0x590D, 0x6742, 0x683C, 0x5F0F, 0x6D4B, 0x8BD5, 0x6587, 0x6863],
               font_color = Some (RGBColor 0x1A 0x1A 0x1A),
               font_bold = None, font_italic = None, font_underline = None, font_size = None\<rparr>]\<rparr>,
     \<lparr>style = Some (Heading 1), alignment = Some CENTER,
      runs = [\<lparr>rtext = [0x683C, 0x5F0F, 0x4FDD, 0x7559, 0x6D4B, 0x8BD5],
               font_color = Some (RGBColor 0xFF 0x00 0x00),
               font_bold = None, font_italic = None, font_underline = None, font_size = None\<rparr>]\<rparr>,
     \<lparr>style = None, alignment = Some LEFT,
      runs = [\<lparr>rtext = [0x8FD9, 0x662F], font_color = Some (RGBColor 0x00 0x00 0x00),
               font_bold = None, font_italic = None, font_underline = None, font_size = None\<rparr>,
              \<lparr>rtext = [0x84DD, 0x8272], font_color = Some (RGBColor 0x00 0x00 0xFF),
               font_bold = Some True, font_italic = None, font_underline = None, font_size = None\<rparr>,
              \<lparr>rtext = [0x7684, 0x6587, 0x5B57, 0xFF0C], font_color = Some (RGBColor 0x00 0x00 0x00),
               font_bold = None, font_italic = None, font_underline = None, font_size = None\<rparr>,
              \<lparr>rtext = [0x7EFF, 0x8272], font_color = Some (RGBColor 0x00 0xFF 0x00),
               font_bold = None, font_italic = Some True, font_underline = None, font_size = None\<rparr>,
              \<lparr>rtext = [0x7684, 0x6587, 0x5B57, 0xFF0C], font_color = Some (RGBColor 0x00 0x00 0x00),
               font_bold = None, font_italic = None, font_underline = None, font_size = None\<rparr>,
              \<lparr>rtext = [0x7EA2, 0x8272], font_color = Some (RGBColor 0xFF 0x00 0x00),
               font_bold = Some True, font_italic = Some True, font_underline = None, font_size = None\<rparr>,
              \<lparr>rtext = [0x7684, 0x6587, 0x5B57, 0x3002], font_color = Some (RGBColor 0x00 0x00 0x00),
               font_bold = None, font_italic = None, font_underline = None, font_size = None\<rparr>]\<rparr>,
     \<lparr>style = None, alignment = Some LEFT,
      runs = [\<lparr>rtext = [0x5F69], font_color = Some (RGBColor 0xFF 0x00 0x00),
               font_bold = None, font_italic = None, font_underline = None, font_size = None\<rparr>,
              \<lparr>rtext = [0x8679], font_color = Some (RGBColor 0xFF 0x7F 0x00),
               font_bold = None, font_italic = None, font_underline = None, font_size = None\<rparr>,
              \<lparr>rtext = [0x6587], font_color = Some (RGBColor 0xFF 0xFF 0x00),
               font_bold = None, font_italic = None, font_underline = None, font_size = None\<rparr>,
              \<lparr>rtext = [0x5B57], font_color = Some (RGBColor 0x00 0xFF 0x00),
               font_bold = None, font_italic = None, font_underline = None, font_size = None\<rparr>,
              \<lparr>rtext = [0xFF1A], font_color = None,
               font_bold = None, font_italic = None, font_underline = None, font_size = None\<rparr>]\<rparr>,
     \<lparr>style = None, alignment = Some LEFT,
      runs = [\<lparr>rtext = [0x5355, 0x8BCD], font_color = Some (RGBColor 0x00 0x00 0xFF),
               font_bold = None, font_italic = None, font_underline = None, font_size = None\<rparr>,
              \<lparr>rtext = [0xFF0C], font_color = Some (RGBColor 0xFF 0x00 0x00),
               font_bold = None, font_italic = None, font_underline = None, font_size = None\<rparr>,
              \<lparr>rtext = [0x6807, 0x70B9], font_color = Some (RGBColor 0x00 0xFF 0x00),
               font_bold = None, font_italic = None, font_underline = None, font_size = None\<rparr>,
              \<lparr>rtext = [0x3002], font_color = Some (RGBColor 0xFF 0x00 0xFF),
               font_bold = None, font_italic = None, font_underline = None, font_size = None\<rparr>]\<rparr>,
     \<lparr>style = None, alignment = Some LEFT,
      runs = [\<lparr>rtext = [0x4E0B, 0x5212, 0x7EBF], font_color = Some (RGBColor 0xFF 0x00 0x00),
               font_bold = None, font_italic = None, font_underline = Some True, font_size = None\<rparr>,
              \<lparr>rtext = [0x0020, 0x666E, 0x901A, 0x6587, 0x5B57, 0x0020], font_color = None,
               font_bold = None, font_italic = None, font_underline = None, font_size = None\<rparr>,
              \<lparr>rtext = [0x4E0B, 0x5212, 0x7EBF], font_color = Some (RGBColor 0x00 0x00 0xFF),
               font_bold = None, font_italic = None, font_underline = Some True, font_size = None\<rparr>]\<rparr>,
     \<lparr>style = None, alignment = Some LEFT,
      runs = [\<lparr>rtext = [0x5C0F, 0x53F7], font_color = Some (RGBColor 0xFF 0x00 0x00),
               font_bold = None, font_italic = None, font_underline = None, font_size = Some (Pt 10)\<rparr>,
              \<lparr>rtext = [0x0020, 0x6B63, 0x5E38, 0x0020], font_color = None,
               font_bold = None, font_italic = None, font_underline = None, font_size = None\<rparr>,
              \<lparr>rtext = [0x5927, 0x53F7], font_color = Some (RGBColor 0x00 0x00 0xFF),
               font_bold = None, font_italic = None, font_underline = None, font_size = Some (Pt 16)\<rparr>]\<rparr>,
     \<lparr>style = None, alignment = Some CENTER,
      runs = [\<lparr>rtext = [0x5C45, 0x4E2D], font_color = Some (RGBColor 0xFF 0x00 0x00),
               font_bold = Some True, font_italic = None, font_underline = None, font_size = None\<rparr>,
              \<lparr>rtext = [0x0020, 0x6587, 0x5B57, 0x0020], font_color = Some (RGBColor 0x00 0x00 0x00),
               font_bold = None, font_italic = None, font_underline = None, font_size = None\<rparr>,
              \<lparr>rtext = [0x6D4B, 0x8BD5], font_color = Some (RGBColor 0x00 0xFF 0x00),
               font_bold = None, font_italic = Some True, font_underline = None, font_size = None\<rparr>]\<rparr>,
     \<lparr>style = None, alignment = Some LEFT,
      runs = [\<lparr>rtext = [0x8FD9, 0x662F], font_color = Some (RGBColor 0x00 0x00 0x00),
               font_bold = Some False, font_italic = Some False, font_underline = None, font_size = None\<rparr>,
              \<lparr>rtext = [0x4E00, 0x4E2A], font_color = Some (RGBColor 0xFF 0x00 0x00),
               font_bold = Some True, font_italic = Some False, font_underline = None, font_size = None\<rparr>,
              \<lparr>rtext = [0x590D, 0x6742], font_color = Some (RGBColor 0x00 0xFF 0x00),
               font_bold = Some False, font_italic = Some True, font_underline = None, font_size = None\<rparr>,
              \<lparr>rtext = [0x7684], font_color = Some (RGBColor 0x00 0x00 0x00),
               font_bold = Some False, font_italic = Some False, font_underline = None, font_size = None\<rparr>,
              \<lparr>rtext = [0x683C, 0x5F0F], font_color = Some (RGBColor 0x00 0x00 0xFF),
               font_bold = Some True, font_italic = Some True, font_underline = None, font_size = None\<rparr>,
              \<lparr>rtext = [0x6D4B, 0x8BD5], font_color = Some (RGBColor 0xFF 0x00 0xFF),
               font_bold = Some False, font_italic = Some False, font_underline = None, font_size = None\<rparr>,
              \<lparr>rtext = [0x6BB5, 0x843D], font_color = Some (RGBColor 0xFF 0x7F 0x00),
               font_bold = Some True, font_italic = Some True, font_underline = None, font_size = None\<rparr>,
              \<lparr>rtext = [0x3002], font_color = Some (RGBColor 0x00 0x00 0x00),
               font_bold = Some False, font_italic = Some False, font_underline = None, font_size = None\<rparr>]\<rparr>,
     \<lparr>style = None, alignment = Some LEFT,
      runs = [\<lparr>rtext = [0x7279, 0x6B8A], font_color = Some (RGBColor 0xFF 0x00 0x00),
               font_bold = None, font_italic = None, font_underline = None, font_size = None\<rparr>,
              \<lparr>rtext = [0x5B57, 0x7B26], font_color = Some (RGBColor 0x00 0xFF 0x00),
               font_bold = None, font_italic = None, font_underline = None, font_size = None\<rparr>,
              \<lparr>rtext = [0xFF1A], font_color = Some (RGBColor 0x00 0x00 0xFF),
               font_bold = None, font_italic = None, font_underline = None, font_size = None\<rparr>,
              \<lparr>rtext = [0x0040], font_color = Some (RGBColor 0xFF 0x00 0xFF),
               font_bold = None, font_italic = None, font_underline = None, font_size = None\<rparr>,
              \<lparr>rtext = [0x0023], font_color = Some (RGBColor 0xFF 0x7F 0x00),
               font_bold = None, font_italic = None, font_underline = None, font_size = None\<rparr>,
              \<lparr>rtext = [0x0024], font_color = Some (RGBColor 0x00 0xFF 0xFF),
               font_bold = None, font_italic = None, font_underline = None, font_size = None\<rparr>,
              \<lparr>rtext = [0x0025], font_color = Some (RGBColor 0xFF 0xFF 0x00),
               font_bold = None, font_italic = None, font_underline = None, font_size = None\<rparr>,
              \<lparr>rtext = [0x0026], font_color = Some (RGBColor 0x00 0x00 0xFF),
               font_bold = None, font_italic = None, font_underline = None, font_size = None\<rparr>,
              \<lparr>rtext = [0x002A], font_color = Some (RGBColor 0xFF 0x00 0x00),
               font_bold = None, font_italic = None, font_underline = None, font_size = None\<rparr>]\<rparr>
   ]"
  by (simp add: doc_def Document_def generate_appends rainbow_text_def colors_def
      complex_texts_def special_chars_def)

lemmas read_back = doc_paragraph_def doc_run_def getitem_def doc_value

section \<open>Claims about the assembled document\<close>

text \<open>
  Paragraph indices below count from 0 in \<^verbatim>\<open>doc.paragraphs\<close>: 0 is the title, 1 the
  subtitle, 2 to 9 are \<^verbatim>\<open>para1\<close> to \<^verbatim>\<open>para8\<close>.
\<close>

text \<open>
  Claim C1 says that every run of the document has its colour, bold and italic
  attributes explicitly set. The script leaves some runs as \<^verbatim>\<open>add_run\<close> created them:
  \<^verbatim>\<open>run_normal\<close> (line 100), the second run of \<^verbatim>\<open>para4\<close>, reads back with no colour,
  no bold and no italic value of its own.
\<close>

theorem run_normal_has_no_explicit_attribute:
  "doc_run 5 1 = Some \<lparr>rtext = [0x0020, 0x666E, 0x901A, 0x6587, 0x5B57, 0x0020],
     font_color = None, font_bold = None, font_italic = None, font_underline = None,
     font_size = None\<rparr>"
  by (simp add: read_back)

text \<open>
  Claim C1 as the script has it: every run has an explicit colour except three left as
  created (the last character of the character-cycling paragraph, \<^verbatim>\<open>run_normal\<close> and
  \<^verbatim>\<open>run_normal2\<close>); bold and italic are explicit on every run of the combinatorial
  paragraph \<^verbatim>\<open>para7\<close> and otherwise only on the runs the script makes bold
  (\<^verbatim>\<open>run2\<close>, \<^verbatim>\<open>run6\<close>, \<^verbatim>\<open>run_center1\<close>) or italic (\<^verbatim>\<open>run4\<close>, \<^verbatim>\<open>run6\<close>,
  \<^verbatim>\<open>run_center3\<close>); underline is explicit on exactly the two underlined runs and the
  size on exactly the two sized runs.
\<close>

theorem explicit_attribute_positions:
  "map_option (run_positions (\<lambda>r. font_color r = None)) doc = Some [(3, 4), (5, 1), (6, 1)]
   \<and> map_option (run_positions (\<lambda>r. font_bold r \<noteq> None)) doc =
       Some [(2, 1), (2, 5), (7, 0),
             (8, 0), (8, 1), (8, 2), (8, 3), (8, 4), (8, 5), (8, 6), (8, 7)]
   \<and> map_option (run_positions (\<lambda>r. font_italic r \<noteq> None)) doc =
       Some [(2, 3), (2, 5), (7, 2),
             (8, 0), (8, 1), (8, 2), (8, 3), (8, 4), (8, 5), (8, 6), (8, 7)]
   \<and> map_option (run_positions (\<lambda>r. font_underline r \<noteq> None)) doc = Some [(5, 0), (5, 2)]
   \<and> map_option (run_positions (\<lambda>r. font_size r \<noteq> None)) doc = Some [(6, 0), (6, 2)]"
  by (simp add: run_positions_def doc_value del: not_None_eq)

text \<open>
  Claim C2 says that the first six characters of the character-cycling paragraph carry
  six palette colours. The string has five characters: the fifth run is the last one
  and has no colour (where the claim has blue), and there is no sixth run.
\<close>

theorem fifth_character_uncolored_and_no_sixth:
  "map_option font_color (doc_run 3 4) = Some None \<and> doc_run 3 5 = None"
  by (simp add: read_back)

text \<open>
  Claim C2 as the script has it: the first to fourth characters carry the colours
  (0xFF,0x00,0x00), (0xFF,0x7F,0x00), (0xFF,0xFF,0x00), (0x00,0xFF,0x00), the fifth and
  final character carries no explicit colour, and the colours come from a palette of
  seven by position modulo the palette length: whatever the string, the loop gives
  character \<open>i\<close> the colour \<^verbatim>\<open>colors[i % len(colors)]\<close> when \<open>i < len(text) - 1\<close>
  and none otherwise.
\<close>

theorem palette_colors_by_position:
  "map_option (map font_color \<circ> runs) (doc_paragraph 3) =
     Some [Some (RGBColor 0xFF 0x00 0x00), Some (RGBColor 0xFF 0x7F 0x00),
           Some (RGBColor 0xFF 0xFF 0x00), Some (RGBColor 0x00 0xFF 0x00), None]
   \<and> length colors = 7
   \<and> (\<forall>str d p. para2_loop (length d) str (List.enumerate 0 str) (d @ [p]) =
         Some (d @ [p\<lparr>runs := runs p @
           map (\<lambda>(i, c). \<lparr>rtext = [c],
                  font_color = (if int i < int (length str) - 1
                                then Some (colors ! (i mod length colors)) else None),
                  font_bold = None, font_italic = None, font_underline = None,
                  font_size = None\<rparr>) (List.enumerate 0 str)\<rparr>]))"
proof (intro conjI allI)
  show "map_option (map font_color \<circ> runs) (doc_paragraph 3) =
     Some [Some (RGBColor 0xFF 0x00 0x00), Some (RGBColor 0xFF 0x7F 0x00),
           Some (RGBColor 0xFF 0xFF 0x00), Some (RGBColor 0x00 0xFF 0x00), None]"
    by (simp add: read_back)
  show "length colors = 7"
    by (simp add: colors_def)
  show "para2_loop (length d) str (List.enumerate 0 str) (d @ [p]) =
         Some (d @ [p\<lparr>runs := runs p @
           map (\<lambda>(i, c). \<lparr>rtext = [c],
                  font_color = (if int i < int (length str) - 1
                                then Some (colors ! (i mod length colors)) else None),
                  font_bold = None, font_italic = None, font_underline = None,
                  font_size = None\<rparr>) (List.enumerate 0 str)\<rparr>])" for str d p
    by (rule para2_loop_last)
qed

text \<open>
  Claim C3: in every paragraph the texts of the runs, concatenated in run order, give
  the paragraph's literal string: the heading texts, the sentences as the script
  spells them run by run, the string \<^verbatim>\<open>text\<close> for the character-cycling paragraph
  (character for character), and the texts of \<^verbatim>\<open>complex_texts\<close> and
  \<^verbatim>\<open>special_chars\<close> in list order. The character loop keeps the order for any
  string: run on a paragraph it extends that paragraph's text by exactly the string.
\<close>

theorem run_texts_concatenate:
  "map_option (map (concat \<circ> map rtext \<circ> runs)) doc = Some [
     [0x590D, 0x6742, 0x683C, 0x5F0F, 0x6D4B, 0x8BD5, 0x6587, 0x6863],
     [0x683C, 0x5F0F, 0x4FDD, 0x7559, 0x6D4B, 0x8BD5],
     [0x8FD9, 0x662F, 0x84DD, 0x8272, 0x7684, 0x6587, 0x5B57, 0xFF0C, 0x7EFF, 0x8272,
      0x7684, 0x6587, 0x5B57, 0xFF0C, 0x7EA2, 0x8272, 0x7684, 0x6587, 0x5B57, 0x3002],
     rainbow_text,
     [0x5355, 0x8BCD, 0xFF0C, 0x6807, 0x70B9, 0x3002],
     [0x4E0B, 0x5212, 0x7EBF, 0x0020, 0x666E, 0x901A, 0x6587, 0x5B57, 0x0020,
      0x4E0B, 0x5212, 0x7EBF],
     [0x5C0F, 0x53F7, 0x0020, 0x6B63, 0x5E38, 0x0020, 0x5927, 0x53F7],
     [0x5C45, 0x4E2D, 0x0020, 0x6587, 0x5B57, 0x0020, 0x6D4B, 0x8BD5],
     concat (map fst complex_texts),
     concat (map fst special_chars)]
   \<and> (\<forall>str d p.
         map_option (\<lambda>d'. concat (map rtext (runs (last d'))))
           (para2_loop (length d) str (List.enumerate 0 str) (d @ [p])) =
         Some (concat (map rtext (runs p)) @ str))"
  by (simp add: doc_value rainbow_text_def complex_texts_def special_chars_def
      para2_loop_texts)

text \<open>
  Claim C4: the script runs every section once, and the document holds their blocks in
  the order of the script: it is the concatenation, in that order, of the one block each
  section builds on a fresh document. There are ten blocks: the title heading and the
  subtitle heading, each with one run of explicit colour, then the eight paragraphs,
  recognised here by the multi-colour sentence, the single characters of \<^verbatim>\<open>text\<close>,
  the words and punctuation marks, the underlines, the sizes, the centring, the texts
  of \<^verbatim>\<open>complex_texts\<close> and the texts of \<^verbatim>\<open>special_chars\<close>.
\<close>

theorem blocks_in_catalog_order:
  "doc = map_option concat (those (map (\<lambda>f. f Document)
       [mk_title, mk_subtitle, mk_para1, mk_para2, mk_para3, mk_para4, mk_para5,
        mk_para6, mk_para7, mk_para8]))
   \<and> map_option (map (\<lambda>b. (style b, length (runs b)))) doc =
       Some [(Some Title, 1), (Some (Heading 1), 1), (None, 7), (None, 5), (None, 4),
             (None, 3), (None, 3), (None, 3), (None, 8), (None, 9)]
   \<and> map_option font_color (doc_run 0 0) = Some (Some (RGBColor 0x1a 0x1a 0x1a))
   \<and> map_option font_color (doc_run 1 0) = Some (Some (RGBColor 0xFF 0x00 0x00))
   \<and> map_option (map font_color \<circ> runs) (doc_paragraph 2) =
       Some [Some (RGBColor 0 0 0), Some (RGBColor 0 0 0xFF), Some (RGBColor 0 0 0),
             Some (RGBColor 0 0xFF 0), Some (RGBColor 0 0 0), Some (RGBColor 0xFF 0 0),
             Some (RGBColor 0 0 0)]
   \<and> map_option (map rtext \<circ> runs) (doc_paragraph 3) = Some (map (\<lambda>c. [c]) rainbow_text)
   \<and> map_option (map rtext \<circ> runs) (doc_paragraph 4) =
       Some [[0x5355, 0x8BCD], [0xFF0C], [0x6807, 0x70B9], [0x3002]]
   \<and> map_option (map font_underline \<circ> runs) (doc_paragraph 5) =
       Some [Some True, None, Some True]
   \<and> map_option (map font_size \<circ> runs) (doc_paragraph 6) =
       Some [Some (Pt 10), None, Some (Pt 16)]
   \<and> map_option alignment (doc_paragraph 7) = Some (Some CENTER)
   \<and> map_option (map rtext \<circ> runs) (doc_paragraph 8) = Some (map fst complex_texts)
   \<and> map_option (map rtext \<circ> runs) (doc_paragraph 9) = Some (map fst special_chars)"
proof (intro conjI)
  show "doc = map_option concat (those (map (\<lambda>f. f Document)
       [mk_title, mk_subtitle, mk_para1, mk_para2, mk_para3, mk_para4, mk_para5,
        mk_para6, mk_para7, mk_para8]))"
    by (simp add: Document_def mk_title_appends mk_subtitle_appends mk_para1_appends
        mk_para2_appends mk_para3_appends mk_para4_appends mk_para5_appends mk_para6_appends
        mk_para7_appends mk_para8_appends doc_def generate_appends)
qed (simp_all add: read_back rainbow_text_def complex_texts_def special_chars_def)

text \<open>
  Claim C5: the combinatorial paragraph \<^verbatim>\<open>para7\<close> has, for each of the four
  (bold, italic) combinations, a run with exactly these two values explicitly set and
  an explicit colour.
\<close>

theorem bold_italic_combinations_covered:
  "\<exists>b. doc_paragraph 8 = Some b
     \<and> list_ex (\<lambda>r. font_bold r = Some False \<and> font_italic r = Some False
                    \<and> font_color r \<noteq> None) (runs b)
     \<and> list_ex (\<lambda>r. font_bold r = Some True \<and> font_italic r = Some False
                    \<and> font_color r \<noteq> None) (runs b)
     \<and> list_ex (\<lambda>r. font_bold r = Some False \<and> font_italic r = Some True
                    \<and> font_color r \<noteq> None) (runs b)
     \<and> list_ex (\<lambda>r. font_bold r = Some True \<and> font_italic r = Some True
                    \<and> font_color r \<noteq> None) (runs b)"
  by (simp add: read_back)

text \<open>
  Claim C7: no run of the document has an empty text (and the script reaches its end:
  the document exists).
\<close>

theorem no_empty_run_text:
  "map_option (list_all (\<lambda>b. list_all (\<lambda>r. rtext r \<noteq> []) (runs b))) doc = Some True"
  by (simp add: doc_value)

text \<open>
  Claim C8: the underline paragraph \<^verbatim>\<open>para4\<close> has three runs: the first red and
  underlined, the second plain (no attribute set, so no underline), the third blue and
  underlined; the two colours differ.
\<close>

theorem underline_alternation:
  "map_option runs (doc_paragraph 5) = Some [
     \<lparr>rtext = [0x4E0B, 0x5212, 0x7EBF], font_color = Some (RGBColor 0xFF 0x00 0x00),
      font_bold = None, font_italic = None, font_underline = Some True, font_size = None\<rparr>,
     \<lparr>rtext = [0x0020, 0x666E, 0x901A, 0x6587, 0x5B57, 0x0020], font_color = None,
      font_bold = None, font_italic = None, font_underline = None, font_size = None\<rparr>,
     \<lparr>rtext = [0x4E0B, 0x5212, 0x7EBF], font_color = Some (RGBColor 0x00 0x00 0xFF),
      font_bold = None, font_italic = None, font_underline = Some True, font_size = None\<rparr>]
   \<and> RGBColor 0xFF 0x00 0x00 \<noteq> RGBColor 0x00 0x00 0xFF"
  by (simp add: read_back)

text \<open>
  Claim C9: the paragraph \<^verbatim>\<open>para6\<close> is centred; its three runs have explicit,
  pairwise distinct colours (red, black, green), the first is bold and the third
  italic; the colour, bold and italic values read back as the script assigned them, and
  assigning a paragraph's alignment changes no run of any paragraph.
\<close>

theorem centered_paragraph_runs:
  "(\<exists>b. doc_paragraph 7 = Some b
      \<and> alignment b = Some CENTER
      \<and> map (\<lambda>r. (font_color r, font_bold r, font_italic r)) (runs b) =
          [(Some (RGBColor 0xFF 0x00 0x00), Some True, None),
           (Some (RGBColor 0x00 0x00 0x00), None, None),
           (Some (RGBColor 0x00 0xFF 0x00), None, Some True)]
      \<and> list_all (\<lambda>r. font_color r \<noteq> None) (runs b)
      \<and> distinct (map font_color (runs b))
      \<and> list_ex (\<lambda>r. font_bold r = Some True) (runs b)
      \<and> list_ex (\<lambda>r. font_italic r = Some True) (runs b))
   \<and> (\<forall>p a d. map_option (map runs) (set_alignment p a d) =
                 (if p < length d then Some (map runs d) else None))"
proof (intro conjI allI)
  show "\<exists>b. doc_paragraph 7 = Some b
      \<and> alignment b = Some CENTER
      \<and> map (\<lambda>r. (font_color r, font_bold r, font_italic r)) (runs b) =
          [(Some (RGBColor 0xFF 0x00 0x00), Some True, None),
           (Some (RGBColor 0x00 0x00 0x00), None, None),
           (Some (RGBColor 0x00 0xFF 0x00), None, Some True)]
      \<and> list_all (\<lambda>r. font_color r \<noteq> None) (runs b)
      \<and> distinct (map font_color (runs b))
      \<and> list_ex (\<lambda>r. font_bold r = Some True) (runs b)
      \<and> list_ex (\<lambda>r. font_italic r = Some True) (runs b)"
    by (simp add: read_back)
  show "map_option (map runs) (set_alignment p a d) =
          (if p < length d then Some (map runs d) else None)" for p a d
    by (simp add: set_alignment_def map_update list_update_same_conv)
qed

text \<open>
  Claim C10: the string of the character-cycling paragraph has exactly five characters,
  so its runs take the first four palette entries (red, orange, yellow, green) and then
  no colour; the last three entries (blue, indigo, violet) colour no run of that
  paragraph, and every position is below the palette length, so the index
  \<^verbatim>\<open>i % len(colors)\<close> is \<open>i\<close> itself and never wraps.
\<close>

theorem palette_never_wraps:
  "length rainbow_text = 5
   \<and> map_option (map font_color \<circ> runs) (doc_paragraph 3) =
       Some (map Some (take 4 colors) @ [None])
   \<and> take 4 colors = [RGBColor 0xFF 0x00 0x00, RGBColor 0xFF 0x7F 0x00,
                       RGBColor 0xFF 0xFF 0x00, RGBColor 0x00 0xFF 0x00]
   \<and> drop 4 colors = [RGBColor 0x00 0x00 0xFF, RGBColor 0x4B 0x00 0x82,
                       RGBColor 0x94 0x00 0xD3]
   \<and> (\<exists>b. doc_paragraph 3 = Some b
          \<and> list_all (\<lambda>c. Some c \<notin> set (map font_color (runs b))) (drop 4 colors))
   \<and> list_all (\<lambda>i. i mod length colors = i) [0..<length rainbow_text]"
  by (simp add: read_back rainbow_text_def colors_def upt_rec_numeral)

end
